theory Spec2Isabelle
  imports Complex_Main "HOL-Library.Char_ord" "HOL-Library.List_Lexorder"
begin

section \<open>Numbers\<close>

text \<open>
  The program is TypeScript; every \<^verbatim>\<open>number\<close> is an IEEE-754 double. The
  embedding reads a number as an exact rational: the arithmetic of \<^verbatim>\<open>calculateStats\<close>
  and of the labels (subtraction, division, multiplication by 100) is modelled without
  rounding, and the values Infinity and NaN, which only a division by zero produces
  there, are outside the model. \<^verbatim>\<open>fetchStats\<close> calls \<^verbatim>\<open>calculateStats\<close> only under the guard
  \<^verbatim>\<open>total > 0 && rank > 0\<close>, so no theorem below depends on a division by zero.
  A value that may be \<^verbatim>\<open>undefined\<close> or \<^verbatim>\<open>null\<close> at run time is an \<open>option\<close>.
\<close>

type_synonym number = rat

text \<open>\<^verbatim>\<open>v || 0\<close> on an optional number: \<^verbatim>\<open>undefined\<close> and \<open>0\<close> both give \<open>0\<close>.\<close>

definition orZero :: "number option \<Rightarrow> number" where
  "orZero v = (case v of None \<Rightarrow> 0 | Some x \<Rightarrow> x)"

text \<open>\<^verbatim>\<open>!v\<close> on an optional number: true for \<^verbatim>\<open>undefined\<close> and for \<open>0\<close>.\<close>

definition falsy :: "number option \<Rightarrow> bool" where
  "falsy v = (case v of None \<Rightarrow> True | Some x \<Rightarrow> x = 0)"

section \<open>Data model: the interfaces of page.tsx\<close>

text \<open>
  The anonymous object type of \<^verbatim>\<open>single\<close> and \<^verbatim>\<open>average\<close> in
  \<^verbatim>\<open>PlayerInfo.personal_records\<close>. Its fields are copied from the JSON payload
  (\<^verbatim>\<open>record.best\<close>, \<^verbatim>\<open>record.rank.world\<close>, ...) without a check, so each may be
  absent.
\<close>

record RankedResult =
  best :: "number option"
  world_ranking :: "number option"
  continental_ranking :: "number option"
  national_ranking :: "number option"

record PersonalRecord =
  single :: "RankedResult option"
  average :: "RankedResult option"

text \<open>
  \<^verbatim>\<open>PlayerInfo\<close>. The nested \<^verbatim>\<open>country: {name, iso2}\<close> is flattened to
  \<open>country_name\<close> and \<open>country_iso2\<close>, \<^verbatim>\<open>avatar?: {url}\<close> to \<open>avatar\<close>.
  \<^verbatim>\<open>personal_records\<close> is an object used as a dictionary; it is an association
  list here, read with \<open>map_of\<close>, its keys \<open>map fst\<close>. The program only ever
  takes the number of keys or sorts them, so the order of the list carries no meaning.
\<close>

record PlayerInfo =
  name :: string
  country_name :: "string option"
  country_iso2 :: string
  continent :: "string option"
  wca_id :: "string option"
  avatar :: "string option"
  personal_records :: "(string \<times> PersonalRecord) list"

record RegionStats =
  totalCompetitors :: number
  percentile :: number
  percentDownList :: number

text \<open>
  \<^verbatim>\<open>EventStats\<close>: per discipline the three standings \<^verbatim>\<open>nr\<close>, \<^verbatim>\<open>cr\<close>,
  \<^verbatim>\<open>wr\<close> and the ranks \<^verbatim>\<open>rank: {nr, cr, wr}\<close> (fields \<open>rank_nr\<close>,
  \<open>rank_cr\<close>, \<open>rank_wr\<close>). The fields \<^verbatim>\<open>single\<close> and \<^verbatim>\<open>average\<close> of
  \<^verbatim>\<open>EventStats\<close> are \<open>singleStats\<close> and \<open>averageStats\<close>.
\<close>

record RegionRanks =
  rank_nr :: number
  rank_cr :: number
  rank_wr :: number

record DisciplineStats =
  nr :: RegionStats
  cr :: RegionStats
  wr :: RegionStats
  rank :: RegionRanks

record EventStats =
  singleStats :: DisciplineStats
  averageStats :: DisciplineStats

section \<open>calculateStats and its call sites in fetchStats\<close>

text \<open>
  \<^verbatim>\<open>
  const calculateStats = (rank: number, totalCompetitors: number): RegionStats => {
    const percentDownList = (rank / totalCompetitors) * 100
    const percentile = (1 - (rank - 1) / totalCompetitors) * 100
    return {
      totalCompetitors,
      percentile: Math.max(0, Math.min(100, percentile)),
      percentDownList,
    }
  }
  \<close>
\<close>

definition calculateStats :: "number \<Rightarrow> number \<Rightarrow> RegionStats" where
  "calculateStats rnk totalC =
     (let pDownList = (rnk / totalC) * 100;
          pct = (1 - (rnk - 1) / totalC) * 100
      in \<lparr> totalCompetitors = totalC,
           percentile = max 0 (min 100 pct),
           percentDownList = pDownList \<rparr>)"

text \<open>
  The standing of one rank on one leaderboard, as \<^verbatim>\<open>fetchStats\<close> computes it. Every
  standing of \<^verbatim>\<open>eventStats\<close> starts as
  \<^verbatim>\<open>{ totalCompetitors: 0, percentile: 0, percentDownList: 0 }\<close> and is replaced only
  under the guard, six times in the same shape:
  \<^verbatim>\<open>
  if (worldSingleTotal > 0 && eventStats.single.rank.wr > 0) {
    eventStats.single.wr = calculateStats(eventStats.single.rank.wr, worldSingleTotal)
  }
  \<close>
  \<open>computeStanding\<close> is that shape, with the rank first as in \<^verbatim>\<open>calculateStats\<close>.
\<close>

definition computeStanding :: "number \<Rightarrow> number \<Rightarrow> RegionStats" where
  "computeStanding rnk totalC =
     (if totalC > 0 \<and> rnk > 0 then calculateStats rnk totalC
      else \<lparr> totalCompetitors = 0, percentile = 0, percentDownList = 0 \<rparr>)"

text \<open>
  A leaderboard lookup: \<^verbatim>\<open>response.ok\<close> false, or true with the payload's
  \<^verbatim>\<open>data.total\<close>. The total starts at 0 and becomes \<^verbatim>\<open>data.total || 0\<close> when
  the response is ok.
\<close>

datatype response = NotOk | Ok "number option"

definition totalOf :: "response \<Rightarrow> number" where
  "totalOf r = (case r of NotOk \<Rightarrow> 0 | Ok t \<Rightarrow> orZero t)"

record Responses =
  worldSingleResponse :: response
  worldAverageResponse :: response
  continentalSingleResponse :: response
  continentalAverageResponse :: response
  nationalSingleResponse :: response
  nationalAverageResponse :: response

text \<open>\<^verbatim>\<open>eventRecord.single?.national_ranking || 0\<close> and its five siblings.\<close>

definition rankOrZero :: "RankedResult option \<Rightarrow> (RankedResult \<Rightarrow> number option) \<Rightarrow> number" where
  "rankOrZero d field = (case d of None \<Rightarrow> 0 | Some x \<Rightarrow> orZero (field x))"

text \<open>The body of the loop of \<^verbatim>\<open>fetchStats\<close> for one event, after the six fetches.\<close>

definition eventStats :: "PersonalRecord \<Rightarrow> Responses \<Rightarrow> EventStats" where
  "eventStats eventRecord rs =
     (let worldSingleTotal = totalOf (worldSingleResponse rs);
          worldAverageTotal = totalOf (worldAverageResponse rs);
          continentalSingleTotal = totalOf (continentalSingleResponse rs);
          continentalAverageTotal = totalOf (continentalAverageResponse rs);
          nationalSingleTotal = totalOf (nationalSingleResponse rs);
          nationalAverageTotal = totalOf (nationalAverageResponse rs);
          singleRank = \<lparr> rank_nr = rankOrZero (single eventRecord) national_ranking,
                         rank_cr = rankOrZero (single eventRecord) continental_ranking,
                         rank_wr = rankOrZero (single eventRecord) world_ranking \<rparr>;
          averageRank = \<lparr> rank_nr = rankOrZero (average eventRecord) national_ranking,
                          rank_cr = rankOrZero (average eventRecord) continental_ranking,
                          rank_wr = rankOrZero (average eventRecord) world_ranking \<rparr>
      in \<lparr> singleStats =
             \<lparr> nr = computeStanding (rank_nr singleRank) nationalSingleTotal,
               cr = computeStanding (rank_cr singleRank) continentalSingleTotal,
               wr = computeStanding (rank_wr singleRank) worldSingleTotal,
               rank = singleRank \<rparr>,
           averageStats =
             \<lparr> nr = computeStanding (rank_nr averageRank) nationalAverageTotal,
               cr = computeStanding (rank_cr averageRank) continentalAverageTotal,
               wr = computeStanding (rank_wr averageRank) worldAverageTotal,
               rank = averageRank \<rparr> \<rparr>)"

section \<open>The percentile labels of the analyzer page\<close>

text \<open>
  \<^verbatim>\<open>Number.prototype.toFixed(1)\<close> as ECMAScript defines it for a finite number below
  \<open>10\<^sup>2\<^sup>1\<close> in absolute value: the sign, then the integer \<open>n\<close> closest to
  \<open>10 * |x|\<close> (the larger one on a tie), printed with its last digit after the point.
  The argument here is \<open>100 - percentile\<close> with a percentile in \<open>[0, 100]\<close>.
\<close>

definition digitChar :: "nat \<Rightarrow> char" where
  "digitChar d = char_of (48 + d)"

fun decimal :: "nat \<Rightarrow> string" where
  "decimal n = (if n < 10 then [digitChar n] else decimal (n div 10) @ [digitChar (n mod 10)])"

declare decimal.simps [simp del]

definition toFixed1 :: "number \<Rightarrow> string" where
  "toFixed1 x =
     (let s = (if x < 0 then ''-'' else []);
          n = nat \<lfloor>\<bar>x\<bar> * 10 + 1 / 2\<rfloor>
      in s @ decimal (n div 10) @ ''.'' @ [digitChar (n mod 10)])"

text \<open>
  The label beside \<^verbatim>\<open>NR: #rank\<close> (the same code for single and for average). The
  row is rendered when \<^verbatim>\<open>rank.nr > 0\<close>; \<open>None\<close> is no row.
  \<^verbatim>\<open>
  if (eventStats.single.rank.nr > 0) {
    const percentile = eventStats.single.nr.percentile
    if (percentile >= 99.9) { return <span ...>Top 0.1%</span> }
    else if (percentile >= 99) { return <span ...>Top 1%</span> }
    else {
      const displayPercentage = (100 - percentile).toFixed(1)
      return <span ...>Top {displayPercentage}%</span>
    }
  }
  return null
  \<close>
\<close>

definition nrLabel :: "number \<Rightarrow> number \<Rightarrow> string option" where
  "nrLabel rnk pct =
     (if rnk > 0 then
        Some (if pct \<ge> 999 / 10 then ''Top 0.1%''
              else if pct \<ge> 99 then ''Top 1%''
              else ''Top '' @ toFixed1 (100 - pct) @ ''%'')
      else None)"

text \<open>
  The labels beside \<^verbatim>\<open>CR: #rank\<close> and \<^verbatim>\<open>WR: #rank\<close>, rendered when the rank
  is positive:
  \<^verbatim>\<open>
  const percentile = eventStats.single.cr.percentile
  if (percentile >= 99.9) { return "Top 0.1%" }
  else if (percentile >= 99) { return "Top 1%" }
  else if (percentile > 0) { return `Top ${(100 - percentile).toFixed(1)}%` }
  else { return "Ranked" }
  \<close>
\<close>

definition crLabel :: "number \<Rightarrow> number \<Rightarrow> string option" where
  "crLabel rnk pct =
     (if rnk > 0 then
        Some (if pct \<ge> 999 / 10 then ''Top 0.1%''
              else if pct \<ge> 99 then ''Top 1%''
              else if pct > 0 then ''Top '' @ toFixed1 (100 - pct) @ ''%''
              else ''Ranked'')
      else None)"

definition wrLabel :: "number \<Rightarrow> number \<Rightarrow> string option" where
  "wrLabel rnk pct =
     (if rnk > 0 then
        Some (if pct \<ge> 999 / 10 then ''Top 0.1%''
              else if pct \<ge> 99 then ''Top 1%''
              else if pct > 0 then ''Top '' @ toFixed1 (100 - pct) @ ''%''
              else ''Ranked'')
      else None)"

record Labels =
  labelNR :: "string option"
  labelCR :: "string option"
  labelWR :: "string option"

text \<open>The three labels of one discipline of one event card.\<close>

definition disciplineLabels :: "DisciplineStats \<Rightarrow> Labels" where
  "disciplineLabels d =
     \<lparr> labelNR = nrLabel (rank_nr (rank d)) (percentile (nr d)),
       labelCR = crLabel (rank_cr (rank d)) (percentile (cr d)),
       labelWR = wrLabel (rank_wr (rank d)) (percentile (wr d)) \<rparr>"

section \<open>Normalizing the competitor payload\<close>

text \<open>
  The payload of the persons API as the two pages read it. A field the code tests
  before use (\<^verbatim>\<open>player.name\<close>, \<^verbatim>\<open>player.country\<close>, \<^verbatim>\<open>player.countryIso2\<close>,
  \<^verbatim>\<open>player.rank\<close>, \<^verbatim>\<open>player.rank.singles\<close>, \<^verbatim>\<open>player.rank.averages\<close>) or
  copies unread is optional; \<^verbatim>\<open>record.eventId\<close> and \<^verbatim>\<open>record.rank\<close> are
  dereferenced without a test and are taken as present, as the API's schema has them.
  The fields of a record of the payload carry the prefix \<open>raw\<close>, those of the player
  the prefix \<open>player\<close>.
\<close>

record RawRank =
  rawWorld :: "number option"
  rawContinent :: "number option"
  rawCountry :: "number option"

record RawRecord =
  rawEventId :: string
  rawBest :: "number option"
  rawRank :: RawRank

record RawRanks =
  singles :: "RawRecord list option"
  averages :: "RawRecord list option"

record RawPlayer =
  playerName :: "string option"
  playerCountry :: "string option"
  playerCountryIso2 :: "string option"
  playerContinent :: "string option"
  playerId :: "string option"
  playerRank :: "RawRanks option"

datatype error = InvalidPlayerData | NoRecordsFound

text \<open>A string in a boolean position: absent and empty are false.\<close>

definition truthy :: "string option \<Rightarrow> bool" where
  "truthy v = (case v of None \<Rightarrow> False | Some t \<Rightarrow> t \<noteq> [])"

text \<open>\<^verbatim>\<open>a || b\<close> with a string default \<open>b\<close>.\<close>

definition orElse :: "string option \<Rightarrow> string \<Rightarrow> string" where
  "orElse a b = (case a of None \<Rightarrow> b | Some t \<Rightarrow> if t \<noteq> [] then t else b)"

text \<open>\<^verbatim>\<open>toLowerCase\<close> on the ASCII letters; other bytes are kept.\<close>

definition toLowerChar :: "char \<Rightarrow> char" where
  "toLowerChar c =
     (let n = (of_char c :: nat) in if 65 \<le> n \<and> n \<le> 90 then char_of (n + 32) else c)"

definition toLowerCase :: "string \<Rightarrow> string" where
  "toLowerCase t = map toLowerChar t"

definition ranked :: "RawRecord \<Rightarrow> RankedResult" where
  "ranked r =
     \<lparr> best = rawBest r,
       world_ranking = rawWorld (rawRank r),
       continental_ranking = rawContinent (rawRank r),
       national_ranking = rawCountry (rawRank r) \<rparr>"

text \<open>
  \<^verbatim>\<open>
  if (!transformedPlayer.personal_records[record.eventId]) {
    transformedPlayer.personal_records[record.eventId] = {}
  }
  transformedPlayer.personal_records[record.eventId].single = { ... }
  \<close>
  \<open>upsert k f\<close> applies \<open>f\<close> to the entry of \<open>k\<close>, creating it as \<^verbatim>\<open>{}\<close> first
  when there is none.
\<close>

fun upsert :: "string \<Rightarrow> (PersonalRecord \<Rightarrow> PersonalRecord) \<Rightarrow>
    (string \<times> PersonalRecord) list \<Rightarrow> (string \<times> PersonalRecord) list" where
  "upsert k f [] = [(k, f \<lparr> single = None, average = None \<rparr>)]"
| "upsert k f ((k', v) # kvs) =
     (if k' = k then (k', f v) # kvs else (k', v) # upsert k f kvs)"

definition setSingle :: "RawRecord \<Rightarrow> (string \<times> PersonalRecord) list \<Rightarrow> (string \<times> PersonalRecord) list" where
  "setSingle r pr = upsert (rawEventId r) (\<lambda>e. e\<lparr> single := Some (ranked r) \<rparr>) pr"

definition setAverage :: "RawRecord \<Rightarrow> (string \<times> PersonalRecord) list \<Rightarrow> (string \<times> PersonalRecord) list" where
  "setAverage r pr = upsert (rawEventId r) (\<lambda>e. e\<lparr> average := Some (ranked r) \<rparr>) pr"

text \<open>
  The records of a payload: \<^verbatim>\<open>personal_records\<close> starts empty and is filled under
  \<^verbatim>\<open>if (player.rank && (player.rank.singles || player.rank.averages))\<close> by the two
  \<^verbatim>\<open>forEach\<close> loops. An array or object in a boolean position is true when it is
  there (\<open>defined\<close>), also when it is empty.
\<close>

definition defined :: "'a option \<Rightarrow> bool" where
  "defined v = (case v of None \<Rightarrow> False | Some x \<Rightarrow> True)"

definition transformRecords :: "RawRanks option \<Rightarrow> (string \<times> PersonalRecord) list" where
  "transformRecords rk =
     (case rk of
        None \<Rightarrow> []
      | Some r \<Rightarrow>
          if defined (singles r) \<or> defined (averages r) then
            (let pr1 = (case singles r of None \<Rightarrow> [] | Some ss \<Rightarrow> fold setSingle ss []);
                 pr2 = (case averages r of None \<Rightarrow> pr1 | Some avs \<Rightarrow> fold setAverage avs pr1)
             in pr2)
          else [])"

text \<open>
  The statements that \<^verbatim>\<open>fetchStats\<close> (analyzer page) and \<^verbatim>\<open>fetchPlayerData\<close>
  (comparison page) share word for word, from the check of \<^verbatim>\<open>player.name\<close> to the
  end of the two loops. The argument \<open>player\<close> is the parsed JSON (\<open>None\<close> for
  \<^verbatim>\<open>null\<close>), \<open>avatarUrl\<close> the result of the avatar lookup.
\<close>

definition transformPlayer :: "RawPlayer option \<Rightarrow> string option \<Rightarrow> error + PlayerInfo" where
  "transformPlayer player avatarUrl =
     (case player of
        None \<Rightarrow> Inl InvalidPlayerData
      | Some p \<Rightarrow>
          if \<not> truthy (playerName p) then Inl InvalidPlayerData
          else
            (let countryIso = orElse (playerCountry p) (orElse (playerCountryIso2 p) ''XX'')
             in Inr \<lparr> name = orElse (playerName p) [],
                      country_name = playerCountry p,
                      country_iso2 = toLowerCase countryIso,
                      continent = playerContinent p,
                      wca_id = playerId p,
                      avatar = (if truthy avatarUrl then avatarUrl else None),
                      personal_records = transformRecords (playerRank p) \<rparr>))"

definition objectKeys :: "(string \<times> 'a) list \<Rightarrow> string list" where
  "objectKeys obj = map fst obj"

text \<open>
  \<^verbatim>\<open>fetchStats\<close> up to \<^verbatim>\<open>setPlayerInfo(transformedPlayer)\<close>: after the shared
  statements it throws when no record was stored.
  \<^verbatim>\<open>
  if (Object.keys(transformedPlayer.personal_records).length === 0) {
    throw new Error("No competition records found for this player.")
  }
  \<close>
\<close>

definition fetchStats :: "RawPlayer option \<Rightarrow> string option \<Rightarrow> error + PlayerInfo" where
  "fetchStats player avatarUrl =
     (case transformPlayer player avatarUrl of
        Inl e \<Rightarrow> Inl e
      | Inr transformedPlayer \<Rightarrow>
          if length (objectKeys (personal_records transformedPlayer)) = 0 then Inl NoRecordsFound
          else Inr transformedPlayer)"

text \<open>
  \<^verbatim>\<open>fetchPlayerData\<close> of the comparison page: the shared statements, then
  \<^verbatim>\<open>return transformedPlayer\<close>.
\<close>

definition fetchPlayerData :: "RawPlayer option \<Rightarrow> string option \<Rightarrow> error + PlayerInfo" where
  "fetchPlayerData player avatarUrl = transformPlayer player avatarUrl"

section \<open>The comparison page: getAllEvents, getBetterRank, calculatePoints\<close>

text \<open>\<^verbatim>\<open>Set.prototype.add\<close>: a set keeps its elements in insertion order.\<close>

definition setAdd :: "string list \<Rightarrow> string \<Rightarrow> string list" where
  "setAdd events event = (if event \<in> set events then events else events @ [event])"

text \<open>
  \<^verbatim>\<open>
  const getAllEvents = () => {
    const events = new Set<string>()
    if (player1) { Object.keys(player1.personal_records).forEach((event) => events.add(event)) }
    if (player2) { Object.keys(player2.personal_records).forEach((event) => events.add(event)) }
    return Array.from(events).sort()
  }
  \<close>
  The two players are component state and may be \<^verbatim>\<open>null\<close>; they are the
  arguments \<open>pl1\<close> and \<open>pl2\<close> here and in \<open>calculatePoints\<close>. The default
  \<^verbatim>\<open>sort()\<close> orders strings by their code units; here it is the lexicographic
  order of the characters, which is the same on the ASCII event codes.
\<close>

definition getAllEvents :: "PlayerInfo option \<Rightarrow> PlayerInfo option \<Rightarrow> string list" where
  "getAllEvents pl1 pl2 =
     (let events0 = [];
          events1 = (case pl1 of
                       None \<Rightarrow> events0
                     | Some p1 \<Rightarrow> fold (\<lambda>event events. setAdd events event)
                                   (objectKeys (personal_records p1)) events0);
          events2 = (case pl2 of
                       None \<Rightarrow> events1
                     | Some p2 \<Rightarrow> fold (\<lambda>event events. setAdd events event)
                                   (objectKeys (personal_records p2)) events1)
      in sort events2)"

datatype winner = Player1 | Player2 | Tie

text \<open>
  \<^verbatim>\<open>
  const getBetterRank = (rank1?: number, rank2?: number) => {
    if (!rank1 && !rank2) return "tie"
    if (!rank1) return "player2"
    if (!rank2) return "player1"
    return rank1 < rank2 ? "player1" : rank1 > rank2 ? "player2" : "tie"
  }
  \<close>
  In the last line both ranks are numbers other than 0; the default of the \<open>case\<close> is
  never reached.
\<close>

definition getBetterRank :: "number option \<Rightarrow> number option \<Rightarrow> winner" where
  "getBetterRank rank1 rank2 =
     (if falsy rank1 \<and> falsy rank2 then Tie
      else if falsy rank1 then Player2
      else if falsy rank2 then Player1
      else (case (rank1, rank2) of
              (Some r1, Some r2) \<Rightarrow> if r1 < r2 then Player1 else if r1 > r2 then Player2 else Tie
            | _ \<Rightarrow> Tie))"

record Tally =
  player1 :: nat
  player2 :: nat
  events :: "string list"

record Points =
  fair :: Tally
  unfair :: Tally

text \<open>The six local variables of \<^verbatim>\<open>calculatePoints\<close> that its loop updates.\<close>

record Counters =
  fairPoints1 :: nat
  fairPoints2 :: nat
  unfairPoints1 :: nat
  unfairPoints2 :: nat
  fairEvents :: "string list"
  unfairEvents :: "string list"

text \<open>
  One comparison of a discipline, written four times in the loop (fair and unfair, single
  and average), on the pair of counters it increments:
  \<^verbatim>\<open>
  if (event1.single && event2.single) {
    const singleWinner = getBetterRank(event1.single.world_ranking, event2.single.world_ranking)
    if (singleWinner === "player1") fairPoints1++
    else if (singleWinner === "player2") fairPoints2++
  }
  \<close>
\<close>

definition compareDiscipline :: "RankedResult option \<Rightarrow> RankedResult option \<Rightarrow> nat \<times> nat \<Rightarrow> nat \<times> nat" where
  "compareDiscipline d1 d2 pts =
     (case (d1, d2) of
        (Some x, Some y) \<Rightarrow>
          (case getBetterRank (world_ranking x) (world_ranking y) of
             Player1 \<Rightarrow> (fst pts + 1, snd pts)
           | Player2 \<Rightarrow> (fst pts, snd pts + 1)
           | Tie \<Rightarrow> pts)
      | _ \<Rightarrow> pts)"

text \<open>\<^verbatim>\<open>if (event1.single) unfairPoints1++\<close>: one point for a discipline that is there.\<close>

definition present :: "RankedResult option \<Rightarrow> nat" where
  "present d = (case d of None \<Rightarrow> 0 | Some x \<Rightarrow> 1)"

text \<open>
  The body of \<^verbatim>\<open>allEvents.forEach((eventId) => { ... })\<close>: the fair block under
  \<^verbatim>\<open>if (event1 && event2)\<close>, then \<^verbatim>\<open>unfairEvents.push(eventId)\<close>, then the three
  branches of the unfair block.
\<close>

definition pointsStep :: "PlayerInfo \<Rightarrow> PlayerInfo \<Rightarrow> string \<Rightarrow> Counters \<Rightarrow> Counters" where
  "pointsStep p1 p2 eventId c =
     (let event1 = map_of (personal_records p1) eventId;
          event2 = map_of (personal_records p2) eventId;
          c1 = (case (event1, event2) of
                  (Some e1, Some e2) \<Rightarrow>
                    (let fp = compareDiscipline (average e1) (average e2)
                                (compareDiscipline (single e1) (single e2)
                                   (fairPoints1 c, fairPoints2 c))
                     in c\<lparr> fairEvents := fairEvents c @ [eventId],
                           fairPoints1 := fst fp,
                           fairPoints2 := snd fp \<rparr>)
                | _ \<Rightarrow> c);
          c2 = c1\<lparr> unfairEvents := unfairEvents c1 @ [eventId] \<rparr>
      in (case (event1, event2) of
            (Some e1, None) \<Rightarrow>
              c2\<lparr> unfairPoints1 := unfairPoints1 c2 + present (single e1) + present (average e1) \<rparr>
          | (None, Some e2) \<Rightarrow>
              c2\<lparr> unfairPoints2 := unfairPoints2 c2 + present (single e2) + present (average e2) \<rparr>
          | (Some e1, Some e2) \<Rightarrow>
              (let up = compareDiscipline (average e1) (average e2)
                          (compareDiscipline (single e1) (single e2)
                             (unfairPoints1 c2, unfairPoints2 c2))
               in c2\<lparr> unfairPoints1 := fst up, unfairPoints2 := snd up \<rparr>)
          | (None, None) \<Rightarrow> c2))"

definition calculatePoints :: "PlayerInfo option \<Rightarrow> PlayerInfo option \<Rightarrow> Points" where
  "calculatePoints pl1 pl2 =
     (case (pl1, pl2) of
        (Some p1, Some p2) \<Rightarrow>
          (let allEvents = getAllEvents pl1 pl2;
               c = fold (pointsStep p1 p2) allEvents
                     \<lparr> fairPoints1 = 0, fairPoints2 = 0, unfairPoints1 = 0, unfairPoints2 = 0,
                       fairEvents = [], unfairEvents = [] \<rparr>
           in \<lparr> fair = \<lparr> player1 = fairPoints1 c, player2 = fairPoints2 c, events = fairEvents c \<rparr>,
                unfair = \<lparr> player1 = unfairPoints1 c, player2 = unfairPoints2 c,
                           events = unfairEvents c \<rparr> \<rparr>)
      | _ \<Rightarrow> \<lparr> fair = \<lparr> player1 = 0, player2 = 0, events = [] \<rparr>,
               unfair = \<lparr> player1 = 0, player2 = 0, events = [] \<rparr> \<rparr>)"

section \<open>The tallies in the words of the spec\<close>

text \<open>
  \<open>sharedEvents a b\<close> is the intersection of the two key sets, \<open>onlyFirst a b\<close> the
  events only \<open>a\<close> holds and \<open>onlySecond a b\<close> the events only \<open>b\<close> holds, each
  listed in the order of \<open>getAllEvents\<close>.
\<close>

definition holds :: "PlayerInfo \<Rightarrow> string \<Rightarrow> bool" where
  "holds a e = (e \<in> set (objectKeys (personal_records a)))"

definition sharedEvents :: "PlayerInfo \<Rightarrow> PlayerInfo \<Rightarrow> string list" where
  "sharedEvents a b = filter (\<lambda>e. holds a e \<and> holds b e) (getAllEvents (Some a) (Some b))"

definition onlyFirst :: "PlayerInfo \<Rightarrow> PlayerInfo \<Rightarrow> string list" where
  "onlyFirst a b = filter (\<lambda>e. holds a e \<and> \<not> holds b e) (getAllEvents (Some a) (Some b))"

definition onlySecond :: "PlayerInfo \<Rightarrow> PlayerInfo \<Rightarrow> string list" where
  "onlySecond a b = filter (\<lambda>e. holds b e \<and> \<not> holds a e) (getAllEvents (Some a) (Some b))"

text \<open>
  One point to side \<open>w\<close> when both sides have a result in the discipline and the
  comparator names \<open>w\<close> the winner; nothing on a tie or when a side has no result.
\<close>

definition disciplinePoint :: "winner \<Rightarrow> RankedResult option \<Rightarrow> RankedResult option \<Rightarrow> nat" where
  "disciplinePoint w d1 d2 =
     (case (d1, d2) of
        (Some x, Some y) \<Rightarrow> if getBetterRank (world_ranking x) (world_ranking y) = w then 1 else 0
      | _ \<Rightarrow> 0)"

text \<open>The points of side \<open>w\<close> for one event that both competitors hold.\<close>

definition contested :: "winner \<Rightarrow> PlayerInfo \<Rightarrow> PlayerInfo \<Rightarrow> string \<Rightarrow> nat" where
  "contested w a b e =
     (case (map_of (personal_records a) e, map_of (personal_records b) e) of
        (Some r1, Some r2) \<Rightarrow>
          disciplinePoint w (single r1) (single r2) + disciplinePoint w (average r1) (average r2)
      | _ \<Rightarrow> 0)"

text \<open>One point per discipline the holder has a result in, with no comparison.\<close>

definition uncontested :: "PlayerInfo \<Rightarrow> string \<Rightarrow> nat" where
  "uncontested a e =
     (case map_of (personal_records a) e of
        None \<Rightarrow> 0
      | Some r \<Rightarrow> (if single r \<noteq> None then 1 else 0) + (if average r \<noteq> None then 1 else 0))"

text \<open>
  The spec's comparator \<open>better(rankA, rankB)\<close>, from its words: the lower rank number
  wins; when one rank is absent the side with a rank wins; when both are absent or the
  ranks are equal it is a tie.
\<close>

definition better :: "number option \<Rightarrow> number option \<Rightarrow> winner" where
  "better rankA rankB =
     (case (rankA, rankB) of
        (None, None) \<Rightarrow> Tie
      | (Some x, None) \<Rightarrow> Player1
      | (None, Some y) \<Rightarrow> Player2
      | (Some x, Some y) \<Rightarrow> if x < y then Player1 else if y < x then Player2 else Tie)"

text \<open>
  The point of a discipline and the points of a shared event as above, with the winner
  taken from the spec's comparator instead of \<^verbatim>\<open>getBetterRank\<close>.
\<close>

definition specDisciplinePoint :: "winner \<Rightarrow> RankedResult option \<Rightarrow> RankedResult option \<Rightarrow> nat" where
  "specDisciplinePoint w d1 d2 =
     (case (d1, d2) of
        (Some x, Some y) \<Rightarrow> if better (world_ranking x) (world_ranking y) = w then 1 else 0
      | _ \<Rightarrow> 0)"

definition specContested :: "winner \<Rightarrow> PlayerInfo \<Rightarrow> PlayerInfo \<Rightarrow> string \<Rightarrow> nat" where
  "specContested w a b e =
     (case (map_of (personal_records a) e, map_of (personal_records b) e) of
        (Some r1, Some r2) \<Rightarrow>
          specDisciplinePoint w (single r1) (single r2)
            + specDisciplinePoint w (average r1) (average r2)
      | _ \<Rightarrow> 0)"

text \<open>
  The data model has a world rank positive or absent. \<open>noZeroRank a\<close> says that no
  result stored in \<open>a\<close> has the world rank 0, the one number \<^verbatim>\<open>getBetterRank\<close>
  reads as absent.
\<close>

definition nonZero :: "RankedResult option \<Rightarrow> bool" where
  "nonZero d = (case d of None \<Rightarrow> True | Some x \<Rightarrow> world_ranking x \<noteq> Some 0)"

definition noZeroRank :: "PlayerInfo \<Rightarrow> bool" where
  "noZeroRank a =
     list_all (\<lambda>kv. nonZero (single (snd kv)) \<and> nonZero (average (snd kv))) (personal_records a)"

section \<open>Example inputs\<close>

text \<open>
  An event record with rank 3 at every scope, and the six leaderboard lookups all failed
  (as they do for the national ones when the country code is the sentinel \<^verbatim>\<open>XX\<close>).
\<close>

definition rankedThird :: PersonalRecord where
  "rankedThird =
     \<lparr> single = Some \<lparr> best = Some 1234, world_ranking = Some 3,
                        continental_ranking = Some 3, national_ranking = Some 3 \<rparr>,
       average = None \<rparr>"

definition noResponses :: Responses where
  "noResponses =
     \<lparr> worldSingleResponse = NotOk, worldAverageResponse = NotOk,
       continentalSingleResponse = NotOk, continentalAverageResponse = NotOk,
       nationalSingleResponse = NotOk, nationalAverageResponse = NotOk \<rparr>"

text \<open>The payload \<^verbatim>\<open>{ name: "X", rank: {} }\<close> of the spec's scenario 4.\<close>

definition payloadWithoutRecords :: "RawPlayer option" where
  "payloadWithoutRecords =
     Some \<lparr> playerName = Some ''X'', playerCountry = None, playerCountryIso2 = None,
            playerContinent = None, playerId = None,
            playerRank = Some \<lparr> singles = None, averages = None \<rparr> \<rparr>"

text \<open>A competitor with the given records and no other data.\<close>

definition competitor :: "string \<Rightarrow> (string \<times> PersonalRecord) list \<Rightarrow> PlayerInfo" where
  "competitor n recs =
     \<lparr> name = n, country_name = None, country_iso2 = ''xx'', continent = None,
       wca_id = None, avatar = None, personal_records = recs \<rparr>"

definition worldRank :: "number \<Rightarrow> RankedResult" where
  "worldRank r =
     \<lparr> best = None, world_ranking = Some r, continental_ranking = None, national_ranking = None \<rparr>"

text \<open>
  The spec's scenario 3: A has only event 333 with a single of world rank 5, B has only
  event 444 with a single of world rank 3.
\<close>

definition competitorA :: PlayerInfo where
  "competitorA = competitor ''A'' [(''333'', \<lparr> single = Some (worldRank 5), average = None \<rparr>)]"

definition competitorB :: PlayerInfo where
  "competitorB = competitor ''B'' [(''444'', \<lparr> single = Some (worldRank 3), average = None \<rparr>)]"

text \<open>
  C holds 333 (single rank 5, average rank 7) and 222 (single rank 10); D holds 333
  (single rank 3, average rank 9).
\<close>

definition competitorC :: PlayerInfo where
  "competitorC =
     competitor ''C''
       [(''333'', \<lparr> single = Some (worldRank 5), average = Some (worldRank 7) \<rparr>),
        (''222'', \<lparr> single = Some (worldRank 10), average = None \<rparr>)]"

definition competitorD :: PlayerInfo where
  "competitorD =
     competitor ''D'' [(''333'', \<lparr> single = Some (worldRank 3), average = Some (worldRank 9) \<rparr>)]"

text \<open>
  Two competitors who both hold 333 in both disciplines: the champion with world ranks
  1 and 2, the novice with world ranks 5000 and 6000.
\<close>

definition champion :: PlayerInfo where
  "champion =
     competitor ''Champion''
       [(''333'', \<lparr> single = Some (worldRank 1), average = Some (worldRank 2) \<rparr>)]"

definition novice :: PlayerInfo where
  "novice =
     competitor ''Novice''
       [(''333'', \<lparr> single = Some (worldRank 5000), average = Some (worldRank 6000) \<rparr>)]"

text \<open>The spec's \<open>clamp(x, lo, hi)\<close>, written out from its words.\<close>

definition clamp :: "number \<Rightarrow> number \<Rightarrow> number \<Rightarrow> number" where
  "clamp x lo hi = (if x < lo then lo else if hi < x then hi else x)"

section \<open>Properties of the standing\<close>

lemma max_min_clamp: "max 0 (min 100 x) = clamp x 0 100"
  by (simp add: clamp_def max_def min_def)

lemma computeStanding_positive:
  "0 < rnk \<Longrightarrow> 0 < totalC \<Longrightarrow> computeStanding rnk totalC = calculateStats rnk totalC"
  by (simp add: computeStanding_def)

lemma percentile_raw_le_100:
  fixes rnk totalC :: number
  assumes "1 \<le> rnk" and "0 < totalC"
  shows "(1 - (rnk - 1) / totalC) * 100 \<le> 100"
proof -
  define q where "q = (rnk - 1) / totalC"
  have "0 \<le> q" unfolding q_def using assms by simp
  then have "(1 - q) * 100 \<le> 100" by (simp add: algebra_simps)
  then show ?thesis unfolding q_def .
qed

lemma percentile_raw_pos:
  fixes rnk totalC :: number
  assumes "rnk \<le> totalC" and "0 < totalC"
  shows "0 < (1 - (rnk - 1) / totalC) * 100"
proof -
  define q where "q = (rnk - 1) / totalC"
  have "rnk - 1 < totalC" using assms by simp
  then have "q < 1" unfolding q_def using assms(2) by (simp add: divide_less_eq_1)
  then have "0 < (1 - q) * 100" by simp
  then show ?thesis unfolding q_def .
qed

text \<open>
  Claim C1. For every positive rank and positive totalCompetitors (in particular for
  positive integers), the standing has percentDownList = rank / totalCompetitors * 100,
  percentile = (1 - (rank - 1) / totalCompetitors) * 100 clamped to [0, 100], and echoes
  totalCompetitors unchanged.
\<close>

theorem computeStanding_formula:
  assumes "0 < rnk" and "0 < totalC"
  shows "computeStanding rnk totalC =
           \<lparr> totalCompetitors = totalC,
             percentile = clamp ((1 - (rnk - 1) / totalC) * 100) 0 100,
             percentDownList = rnk / totalC * 100 \<rparr>"
  using assms by (simp add: computeStanding_def calculateStats_def max_min_clamp)

theorem computeStanding_formula_witness:
  "computeStanding 50 100 = \<lparr> totalCompetitors = 100, percentile = 51, percentDownList = 50 \<rparr>"
  using computeStanding_formula [of 50 100] by (simp add: clamp_def)

text \<open>Each of the six standings of an event is \<open>computeStanding\<close> of its rank and total.\<close>

lemma eventStats_standings:
  "nr (singleStats (eventStats e rs)) =
     computeStanding (rankOrZero (single e) national_ranking) (totalOf (nationalSingleResponse rs))"
  "cr (singleStats (eventStats e rs)) =
     computeStanding (rankOrZero (single e) continental_ranking) (totalOf (continentalSingleResponse rs))"
  "wr (singleStats (eventStats e rs)) =
     computeStanding (rankOrZero (single e) world_ranking) (totalOf (worldSingleResponse rs))"
  "nr (averageStats (eventStats e rs)) =
     computeStanding (rankOrZero (average e) national_ranking) (totalOf (nationalAverageResponse rs))"
  "cr (averageStats (eventStats e rs)) =
     computeStanding (rankOrZero (average e) continental_ranking) (totalOf (continentalAverageResponse rs))"
  "wr (averageStats (eventStats e rs)) =
     computeStanding (rankOrZero (average e) world_ranking) (totalOf (worldAverageResponse rs))"
  by (simp_all add: eventStats_def Let_def)

text \<open>
  The guard is the caller's: \<^verbatim>\<open>calculateStats\<close> itself has none, and on a rank of 0
  it returns a percentile of 100.
\<close>

lemma calculateStats_unguarded:
  "calculateStats 0 5 = \<lparr> totalCompetitors = 5, percentile = 100, percentDownList = 0 \<rparr>"
  by (simp add: calculateStats_def)

text \<open>
  Claim C2. For every rank \<open>\<le> 0\<close> or totalCompetitors \<open>\<le> 0\<close> the standing is the
  unranked placeholder \<^verbatim>\<open>{ totalCompetitors: 0, percentile: 0, percentDownList: 0 }\<close>.
  The function is total and has no error result: nothing is thrown.
\<close>

theorem computeStanding_unranked:
  assumes "rnk \<le> 0 \<or> totalC \<le> 0"
  shows "computeStanding rnk totalC = \<lparr> totalCompetitors = 0, percentile = 0, percentDownList = 0 \<rparr>"
  using assms by (auto simp: computeStanding_def)

theorem computeStanding_unranked_witness:
  "computeStanding 0 5 = \<lparr> totalCompetitors = 0, percentile = 0, percentDownList = 0 \<rparr>
   \<and> computeStanding 3 0 = \<lparr> totalCompetitors = 0, percentile = 0, percentDownList = 0 \<rparr>
   \<and> computeStanding (- 2) (- 7) = \<lparr> totalCompetitors = 0, percentile = 0, percentDownList = 0 \<rparr>"
  using computeStanding_unranked [of 0 5] computeStanding_unranked [of 3 0]
    computeStanding_unranked [of "- 2" "- 7"] by simp

text \<open>For a rank on the list, from 1 to the total, the clamp changes nothing.\<close>

lemma percentile_unclamped:
  assumes "1 \<le> rnk" and "rnk \<le> totalC"
  shows "percentile (computeStanding rnk totalC) = (1 - (rnk - 1) / totalC) * 100"
proof -
  have t: "0 < totalC" using assms by simp
  have hi: "(1 - (rnk - 1) / totalC) * 100 \<le> 100"
    using assms(1) t by (rule percentile_raw_le_100)
  have lo: "0 < (1 - (rnk - 1) / totalC) * 100"
    using assms(2) t by (rule percentile_raw_pos)
  have "percentile (computeStanding rnk totalC) = max 0 (min 100 ((1 - (rnk - 1) / totalC) * 100))"
    using assms t by (simp add: computeStanding_def calculateStats_def)
  also have "\<dots> = (1 - (rnk - 1) / totalC) * 100"
    using hi lo by (simp add: max_def min_def)
  finally show ?thesis .
qed

lemma percentile_mono_rat:
  assumes "1 \<le> r1" and "r1 \<le> r2" and "r2 \<le> totalC"
  shows "percentile (computeStanding r2 totalC) \<le> percentile (computeStanding r1 totalC)"
proof -
  have t: "0 < totalC" using assms by simp
  define q1 where "q1 = (r1 - 1) / totalC"
  define q2 where "q2 = (r2 - 1) / totalC"
  have "q1 \<le> q2"
    unfolding q1_def q2_def using assms(2) t by (simp add: divide_right_mono)
  then have "(1 - q2) * 100 \<le> (1 - q1) * 100"
    by simp
  then have "(1 - (r2 - 1) / totalC) * 100 \<le> (1 - (r1 - 1) / totalC) * 100"
    unfolding q1_def q2_def .
  moreover have "percentile (computeStanding r1 totalC) = (1 - (r1 - 1) / totalC) * 100"
    using assms by (intro percentile_unclamped) simp_all
  moreover have "percentile (computeStanding r2 totalC) = (1 - (r2 - 1) / totalC) * 100"
    using assms by (intro percentile_unclamped) simp_all
  ultimately show ?thesis by simp
qed

text \<open>
  Claim C8. For every positive integer \<open>N\<close>: over the ranks from 1 to \<open>N\<close> the
  percentile does not increase as the rank increases; rank 1 has percentile exactly 100;
  rank \<open>N\<close> has percentile \<open>100 * (1 - (N - 1) / N)\<close>, which is greater than 0 when
  \<open>N > 1\<close>.
\<close>

theorem percentile_monotone:
  fixes N :: int
  assumes "0 < N"
  shows "(\<forall>r1 r2 :: int. 1 \<le> r1 \<and> r1 \<le> r2 \<and> r2 \<le> N \<longrightarrow>
            percentile (computeStanding (of_int r2) (of_int N))
              \<le> percentile (computeStanding (of_int r1) (of_int N)))
         \<and> percentile (computeStanding 1 (of_int N)) = 100
         \<and> percentile (computeStanding (of_int N) (of_int N)) = 100 * (1 - (of_int N - 1) / of_int N)
         \<and> (1 < N \<longrightarrow> 0 < percentile (computeStanding (of_int N) (of_int N)))"
proof -
  have N1: "(1::number) \<le> of_int N" using assms by simp
  have mono: "percentile (computeStanding (of_int r2) (of_int N))
                \<le> percentile (computeStanding (of_int r1) (of_int N))"
    if "1 \<le> r1" "r1 \<le> r2" "r2 \<le> N" for r1 r2 :: int
    using that by (intro percentile_mono_rat) simp_all
  have first: "percentile (computeStanding 1 (of_int N)) = 100"
    using percentile_unclamped [of 1 "of_int N"] N1 by simp
  have last: "percentile (computeStanding (of_int N) (of_int N)) = 100 * (1 - (of_int N - 1) / of_int N)"
    using percentile_unclamped [of "of_int N" "of_int N"] N1 by (simp add: mult.commute)
  have pos: "0 < percentile (computeStanding (of_int N) (of_int N))"
    using percentile_unclamped [of "of_int N" "of_int N"] percentile_raw_pos [of "of_int N" "of_int N"] N1
    by simp
  show ?thesis using mono first last pos by blast
qed

theorem percentile_monotone_witness:
  "percentile (computeStanding 3 4) \<le> percentile (computeStanding 2 4)
   \<and> percentile (computeStanding 1 4) = 100
   \<and> percentile (computeStanding 4 4) = 25
   \<and> 0 < percentile (computeStanding 4 4)"
proof -
  have h: "(0::int) < 4" by simp
  note T = percentile_monotone [OF h]
  have A: "\<forall>r1 r2 :: int. 1 \<le> r1 \<and> r1 \<le> r2 \<and> r2 \<le> 4 \<longrightarrow>
            percentile (computeStanding (of_int r2) (of_int 4))
              \<le> percentile (computeStanding (of_int r1) (of_int 4))"
    using T by blast
  have "percentile (computeStanding (of_int 3) (of_int 4)) \<le> percentile (computeStanding (of_int 2) (of_int 4))"
    using A [rule_format, of 2 3] by simp
  moreover have "percentile (computeStanding 1 (of_int 4)) = 100"
    using T by simp
  moreover have "percentile (computeStanding (of_int 4) (of_int 4)) = 100 * (1 - (of_int 4 - 1) / of_int 4)"
    using T by simp
  moreover have "0 < percentile (computeStanding (of_int 4) (of_int 4))"
    using T by simp
  ultimately show ?thesis by simp
qed

text \<open>
  Claim C9, as stated: for positive rank and positive totalCompetitors both
  \<open>0 \<le> percentile \<le> 100\<close> and \<open>0 \<le> percentDownList \<le> 100\<close>. The percentile is
  clamped; percentDownList is not, and a rank beyond the total takes it above 100:
  rank 5 of 3 gives \<open>500 / 3\<close>.
\<close>

theorem percentDownList_above_100_counterexample:
  "(0::number) < 5 \<and> (0::number) < 3 \<and> \<not> percentDownList (computeStanding 5 3) \<le> 100"
  by (simp add: computeStanding_def calculateStats_def)

text \<open>
  Claim C9, amended. For positive rank and positive totalCompetitors,
  \<open>0 \<le> percentile \<le> 100\<close> and \<open>0 \<le> percentDownList\<close>; and
  \<open>percentDownList \<le> 100\<close> holds exactly when the rank is at most totalCompetitors.
\<close>

theorem standing_bounds:
  assumes "0 < rnk" and "0 < totalC"
  shows "0 \<le> percentile (computeStanding rnk totalC)
         \<and> percentile (computeStanding rnk totalC) \<le> 100
         \<and> 0 \<le> percentDownList (computeStanding rnk totalC)
         \<and> (percentDownList (computeStanding rnk totalC) \<le> 100 \<longleftrightarrow> rnk \<le> totalC)"
proof -
  have p: "percentile (computeStanding rnk totalC) = max 0 (min 100 ((1 - (rnk - 1) / totalC) * 100))"
    using assms by (simp add: computeStanding_def calculateStats_def)
  have d: "percentDownList (computeStanding rnk totalC) = rnk / totalC * 100"
    using assms by (simp add: computeStanding_def calculateStats_def)
  have d0: "0 \<le> rnk / totalC * 100" using assms by simp
  define q where "q = rnk / totalC"
  have "(q * 100 \<le> 100) = (q \<le> 1)" by auto
  also have "\<dots> = (rnk \<le> totalC)" unfolding q_def using assms(2) by (simp add: divide_le_eq_1)
  finally have d1: "(rnk / totalC * 100 \<le> 100) = (rnk \<le> totalC)" unfolding q_def .
  show ?thesis unfolding p d using d0 d1 by simp
qed

theorem standing_bounds_witness:
  "0 \<le> percentile (computeStanding 50 100) \<and> percentile (computeStanding 50 100) \<le> 100
   \<and> 0 \<le> percentDownList (computeStanding 50 100)
   \<and> percentDownList (computeStanding 50 100) \<le> 100"
  using standing_bounds [of 50 100] by simp

section \<open>Properties of the labels\<close>

lemma toFixed1_100: "toFixed1 100 = ''100.0''"
  by code_simp

text \<open>
  The continental and world labels follow the four bands for every percentile a standing
  can have, and the two are the same function.
\<close>

lemma crLabel_bands:
  assumes "0 < rnk" and "0 \<le> pct"
  shows "crLabel rnk pct =
           Some (if pct \<ge> 999 / 10 then ''Top 0.1%''
                 else if pct \<ge> 99 then ''Top 1%''
                 else if pct = 0 then ''Ranked''
                 else ''Top '' @ toFixed1 (100 - pct) @ ''%'')"
  using assms by (auto simp: crLabel_def)

lemma wrLabel_crLabel: "wrLabel rnk pct = crLabel rnk pct"
  by (simp add: wrLabel_def crLabel_def)

text \<open>The national label agrees with them on every positive percentile, and only there.\<close>

lemma nrLabel_positive: "0 < pct \<Longrightarrow> nrLabel rnk pct = crLabel rnk pct"
  by (simp add: nrLabel_def crLabel_def)

lemma nrLabel_zero: "0 < rnk \<Longrightarrow> nrLabel rnk 0 = Some ''Top 100.0%''"
  by (simp add: nrLabel_def toFixed1_100)

lemma crLabel_zero: "0 < rnk \<Longrightarrow> crLabel rnk 0 = Some ''Ranked''"
  by (simp add: crLabel_def)

text \<open>
  Claim C4. The bands are: percentile \<open>\<ge> 99.9\<close> "Top 0.1%", \<open>\<ge> 99\<close> "Top 1%",
  otherwise "Top (100 - percentile, one decimal)%", and a percentile of exactly 0 the
  neutral label "Ranked", uniformly at the three scopes. The continental and the world
  label do so; the national label has no branch for 0. An event with rank 3 at every
  scope whose leaderboard totals could not be fetched has percentile 0 at every scope:
  it is labelled "Ranked" at continental and world scope and "Top 100.0%" at national
  scope.
\<close>

theorem national_label_at_percentile_zero:
  "percentile (nr (singleStats (eventStats rankedThird noResponses))) = 0
   \<and> percentile (cr (singleStats (eventStats rankedThird noResponses))) = 0
   \<and> percentile (wr (singleStats (eventStats rankedThird noResponses))) = 0
   \<and> disciplineLabels (singleStats (eventStats rankedThird noResponses)) =
       \<lparr> labelNR = Some ''Top 100.0%'', labelCR = Some ''Ranked'', labelWR = Some ''Ranked'' \<rparr>"
  by code_simp

section \<open>Properties of the normalizer\<close>

lemma upsert_not_empty: "upsert k f pr \<noteq> []"
  by (cases pr) (auto split: if_splits)

lemma fold_setSingle_empty: "fold setSingle ss pr = [] \<longleftrightarrow> ss = [] \<and> pr = []"
  by (induction ss arbitrary: pr) (simp_all add: setSingle_def upsert_not_empty)

lemma fold_setAverage_empty: "fold setAverage avs pr = [] \<longleftrightarrow> avs = [] \<and> pr = []"
  by (induction avs arbitrary: pr) (simp_all add: setAverage_def upsert_not_empty)

text \<open>No record is stored exactly when the payload lists no single and no average.\<close>

lemma transformRecords_empty:
  "transformRecords rk = [] \<longleftrightarrow>
     (case rk of
        None \<Rightarrow> True
      | Some r \<Rightarrow> (singles r = None \<or> singles r = Some []) \<and> (averages r = None \<or> averages r = Some []))"
  by (auto simp: transformRecords_def defined_def Let_def fold_setSingle_empty fold_setAverage_empty
        split: option.splits)

text \<open>
  On the analyzer page a named payload without records fails with \<open>NoRecordsFound\<close>, and
  no competitor with an empty \<open>personal_records\<close> is ever returned.
\<close>

lemma fetchStats_NoRecordsFound:
  assumes "truthy (playerName p)" and "transformRecords (playerRank p) = []"
  shows "fetchStats (Some p) avatarUrl = Inl NoRecordsFound"
  using assms by (simp add: fetchStats_def transformPlayer_def objectKeys_def Let_def)

lemma fetchStats_records_not_empty:
  assumes "fetchStats player avatarUrl = Inr t"
  shows "personal_records t \<noteq> []"
  using assms by (auto simp: fetchStats_def objectKeys_def split: sum.splits if_splits)

text \<open>On the comparison page the same payload is returned as a competitor without records.\<close>

lemma fetchPlayerData_no_check:
  assumes "truthy (playerName p)" and "transformRecords (playerRank p) = []"
  shows "\<exists>t. fetchPlayerData (Some p) avatarUrl = Inr t \<and> personal_records t = []"
  using assms by (simp add: fetchPlayerData_def transformPlayer_def Let_def)

text \<open>
  Claim C3. A payload that yields no event record fails with \<open>NoRecordsFound\<close> in the
  analyzer and in the comparison mode. The analyzer does; the comparison mode has no
  such check. On the payload \<^verbatim>\<open>{ name: "X", rank: {} }\<close> \<^verbatim>\<open>fetchStats\<close> fails with
  \<open>NoRecordsFound\<close> and \<^verbatim>\<open>fetchPlayerData\<close> returns a competitor whose
  \<open>personal_records\<close> is empty.
\<close>

theorem fetchPlayerData_keeps_empty_records:
  "fetchStats payloadWithoutRecords None = Inl NoRecordsFound
   \<and> fetchPlayerData payloadWithoutRecords None =
       Inr \<lparr> name = ''X'', country_name = None, country_iso2 = ''xx'', continent = None,
             wca_id = None, avatar = None, personal_records = [] \<rparr>"
  by code_simp

section \<open>Properties of the comparison\<close>

lemma getBetterRank_same: "getBetterRank r r = Tie"
  by (cases r) (simp_all add: getBetterRank_def falsy_def)

subsection \<open>The list of events\<close>

lemma set_fold_setAdd:
  "set (fold (\<lambda>event events. setAdd events event) ks acc) = set ks \<union> set acc"
  by (induction ks arbitrary: acc) (auto simp: setAdd_def)

lemma distinct_fold_setAdd:
  "distinct acc \<Longrightarrow> distinct (fold (\<lambda>event events. setAdd events event) ks acc)"
  by (induction ks arbitrary: acc) (auto simp: setAdd_def)

lemma set_getAllEvents:
  "set (getAllEvents (Some a) (Some b)) =
     set (objectKeys (personal_records a)) \<union> set (objectKeys (personal_records b))"
  by (auto simp: getAllEvents_def set_fold_setAdd)

lemma distinct_getAllEvents: "distinct (getAllEvents pl1 pl2)"
  by (cases pl1; cases pl2) (simp_all add: getAllEvents_def distinct_fold_setAdd)

lemma sorted_getAllEvents: "sorted (getAllEvents pl1 pl2)"
  by (simp add: getAllEvents_def Let_def)

lemma holds_map_of: "holds a e \<longleftrightarrow> map_of (personal_records a) e \<noteq> None"
  by (simp add: holds_def objectKeys_def map_of_eq_None_iff)

subsection \<open>One pass of the loop\<close>

lemma fst_compareDiscipline:
  "fst (compareDiscipline d1 d2 pts) = fst pts + disciplinePoint Player1 d1 d2"
  by (cases d1; cases d2) (simp_all add: compareDiscipline_def disciplinePoint_def split: winner.splits)

lemma snd_compareDiscipline:
  "snd (compareDiscipline d1 d2 pts) = snd pts + disciplinePoint Player2 d1 d2"
  by (cases d1; cases d2) (simp_all add: compareDiscipline_def disciplinePoint_def split: winner.splits)

lemma present_eq: "present d = (if d \<noteq> None then 1 else 0)"
  by (cases d) (simp_all add: present_def)

lemma step_fairPoints1:
  "fairPoints1 (pointsStep a b e c) = fairPoints1 c + contested Player1 a b e"
  by (cases "map_of (personal_records a) e"; cases "map_of (personal_records b) e")
     (simp_all add: pointsStep_def Let_def contested_def fst_compareDiscipline)

lemma step_fairPoints2:
  "fairPoints2 (pointsStep a b e c) = fairPoints2 c + contested Player2 a b e"
  by (cases "map_of (personal_records a) e"; cases "map_of (personal_records b) e")
     (simp_all add: pointsStep_def Let_def contested_def snd_compareDiscipline)

lemma step_fairEvents:
  "fairEvents (pointsStep a b e c) = fairEvents c @ (if holds a e \<and> holds b e then [e] else [])"
  by (cases "map_of (personal_records a) e"; cases "map_of (personal_records b) e")
     (simp_all add: pointsStep_def Let_def holds_map_of)

lemma step_unfairEvents:
  "unfairEvents (pointsStep a b e c) = unfairEvents c @ [e]"
  by (cases "map_of (personal_records a) e"; cases "map_of (personal_records b) e")
     (simp_all add: pointsStep_def Let_def)

lemma step_unfairPoints1:
  "unfairPoints1 (pointsStep a b e c) =
     unfairPoints1 c + contested Player1 a b e + (if holds b e then 0 else uncontested a e)"
  by (cases "map_of (personal_records a) e"; cases "map_of (personal_records b) e")
     (simp_all add: pointsStep_def Let_def contested_def uncontested_def holds_map_of
        fst_compareDiscipline present_eq)

lemma step_unfairPoints2:
  "unfairPoints2 (pointsStep a b e c) =
     unfairPoints2 c + contested Player2 a b e + (if holds a e then 0 else uncontested b e)"
  by (cases "map_of (personal_records a) e"; cases "map_of (personal_records b) e")
     (simp_all add: pointsStep_def Let_def contested_def uncontested_def holds_map_of
        snd_compareDiscipline present_eq)

subsection \<open>The whole loop\<close>

lemma fold_fairPoints1:
  "fairPoints1 (fold (pointsStep a b) es c) = fairPoints1 c + (\<Sum>e\<leftarrow>es. contested Player1 a b e)"
  by (induction es arbitrary: c) (simp_all add: step_fairPoints1)

lemma fold_fairPoints2:
  "fairPoints2 (fold (pointsStep a b) es c) = fairPoints2 c + (\<Sum>e\<leftarrow>es. contested Player2 a b e)"
  by (induction es arbitrary: c) (simp_all add: step_fairPoints2)

lemma fold_fairEvents:
  "fairEvents (fold (pointsStep a b) es c) = fairEvents c @ filter (\<lambda>e. holds a e \<and> holds b e) es"
  by (induction es arbitrary: c) (simp_all add: step_fairEvents)

lemma fold_unfairEvents:
  "unfairEvents (fold (pointsStep a b) es c) = unfairEvents c @ es"
  by (induction es arbitrary: c) (simp_all add: step_unfairEvents)

lemma fold_unfairPoints1:
  "unfairPoints1 (fold (pointsStep a b) es c) =
     unfairPoints1 c + (\<Sum>e\<leftarrow>es. contested Player1 a b e)
       + (\<Sum>e\<leftarrow>es. if holds b e then 0 else uncontested a e)"
  by (induction es arbitrary: c) (simp_all add: step_unfairPoints1)

lemma fold_unfairPoints2:
  "unfairPoints2 (fold (pointsStep a b) es c) =
     unfairPoints2 c + (\<Sum>e\<leftarrow>es. contested Player2 a b e)
       + (\<Sum>e\<leftarrow>es. if holds a e then 0 else uncontested b e)"
  by (induction es arbitrary: c) (simp_all add: step_unfairPoints2)

lemma contested_only_shared: "\<not> (holds a e \<and> holds b e) \<Longrightarrow> contested w a b e = 0"
  by (auto simp: contested_def holds_map_of split: option.splits)

lemma uncontested_only_held: "\<not> holds a e \<Longrightarrow> uncontested a e = 0"
  by (simp add: uncontested_def holds_map_of)

lemma sum_contested_shared:
  "(\<Sum>e\<leftarrow>es. contested w a b e) = (\<Sum>e\<leftarrow>filter (\<lambda>e. holds a e \<and> holds b e) es. contested w a b e)"
  by (induction es) (simp_all add: contested_only_shared)

lemma sum_uncontested_only:
  "(\<Sum>e\<leftarrow>es. if holds b e then 0 else uncontested a e)
     = (\<Sum>e\<leftarrow>filter (\<lambda>e. holds a e \<and> \<not> holds b e) es. uncontested a e)"
  by (induction es) (simp_all add: uncontested_only_held)

lemma calculatePoints_Some:
  "calculatePoints (Some a) (Some b) =
     (let c = fold (pointsStep a b) (getAllEvents (Some a) (Some b))
                \<lparr> fairPoints1 = 0, fairPoints2 = 0, unfairPoints1 = 0, unfairPoints2 = 0,
                  fairEvents = [], unfairEvents = [] \<rparr>
      in \<lparr> fair = \<lparr> player1 = fairPoints1 c, player2 = fairPoints2 c, events = fairEvents c \<rparr>,
           unfair = \<lparr> player1 = unfairPoints1 c, player2 = unfairPoints2 c, events = unfairEvents c \<rparr> \<rparr>)"
  by (simp add: calculatePoints_def Let_def)

lemma fair_player1:
  "player1 (fair (calculatePoints (Some a) (Some b))) = (\<Sum>e\<leftarrow>sharedEvents a b. contested Player1 a b e)"
  by (simp add: calculatePoints_Some Let_def fold_fairPoints1 sharedEvents_def sum_contested_shared [symmetric])

lemma fair_player2:
  "player2 (fair (calculatePoints (Some a) (Some b))) = (\<Sum>e\<leftarrow>sharedEvents a b. contested Player2 a b e)"
  by (simp add: calculatePoints_Some Let_def fold_fairPoints2 sharedEvents_def sum_contested_shared [symmetric])

subsection \<open>The comparator of the code and the comparator of the spec\<close>

text \<open>
  \<^verbatim>\<open>getBetterRank\<close> is the spec's comparator on every pair of ranks neither of which
  is the number 0: absent ranks lose to present ones and the lower number wins.
\<close>

lemma getBetterRank_better:
  assumes "rank1 \<noteq> Some 0" and "rank2 \<noteq> Some 0"
  shows "getBetterRank rank1 rank2 = better rank1 rank2"
  using assms by (cases rank1; cases rank2) (auto simp: getBetterRank_def better_def falsy_def)

lemma getBetterRank_lower_wins:
  assumes "0 < r1" and "r1 < r2"
  shows "getBetterRank (Some r1) (Some r2) = Player1" and "getBetterRank (Some r2) (Some r1) = Player2"
  using assms by (simp_all add: getBetterRank_def falsy_def)

lemma disciplinePoint_spec:
  assumes "nonZero d1" and "nonZero d2"
  shows "disciplinePoint w d1 d2 = specDisciplinePoint w d1 d2"
  using assms
  by (cases d1; cases d2)
     (simp_all add: disciplinePoint_def specDisciplinePoint_def nonZero_def getBetterRank_better)

lemma noZeroRank_lookup:
  assumes "noZeroRank a" and "map_of (personal_records a) e = Some r"
  shows "nonZero (single r)" and "nonZero (average r)"
proof -
  have "(e, r) \<in> set (personal_records a)"
    using assms(2) by (rule map_of_SomeD)
  then have "nonZero (single r) \<and> nonZero (average r)"
    using assms(1) by (auto simp: noZeroRank_def list_all_iff)
  then show "nonZero (single r)" and "nonZero (average r)" by simp_all
qed

lemma contested_spec:
  assumes "noZeroRank a" and "noZeroRank b"
  shows "contested w a b e = specContested w a b e"
proof (cases "map_of (personal_records a) e")
  case None
  then show ?thesis by (simp add: contested_def specContested_def)
next
  case (Some r1)
  note a1 = Some
  show ?thesis
  proof (cases "map_of (personal_records b) e")
    case None
    then show ?thesis using a1 by (simp add: contested_def specContested_def)
  next
    case (Some r2)
    have "disciplinePoint w (single r1) (single r2) = specDisciplinePoint w (single r1) (single r2)"
      using noZeroRank_lookup(1) [OF assms(1) a1] noZeroRank_lookup(1) [OF assms(2) Some]
      by (rule disciplinePoint_spec)
    moreover have "disciplinePoint w (average r1) (average r2) = specDisciplinePoint w (average r1) (average r2)"
      using noZeroRank_lookup(2) [OF assms(1) a1] noZeroRank_lookup(2) [OF assms(2) Some]
      by (rule disciplinePoint_spec)
    ultimately show ?thesis using a1 Some by (simp add: contested_def specContested_def)
  qed
qed

lemma sum_contested_spec:
  assumes "noZeroRank a" and "noZeroRank b"
  shows "(\<Sum>e\<leftarrow>es. contested w a b e) = (\<Sum>e\<leftarrow>es. specContested w a b e)"
  using assms by (simp add: contested_spec)

subsection \<open>The claims\<close>

text \<open>
  Claim C5. The fair tally awards points only for the events present in both records:
  each total is the sum, over the shared events, of one point for the single comparison
  when both sides have a single and that side wins it, and one point for the average
  comparison likewise; a tie awards nothing. The events listed are the shared events,
  each once. The winner is the one \<^verbatim>\<open>getBetterRank\<close> names, and that is the
  winner of the spec's comparator (the lower rank number, a present rank over an absent
  one) whenever neither rank is the number 0; so for records that store no rank 0 the
  totals are the sums of the points the spec's comparator awards.
\<close>

theorem fair_tally:
  "player1 (fair (calculatePoints (Some a) (Some b))) = (\<Sum>e\<leftarrow>sharedEvents a b. contested Player1 a b e)
   \<and> player2 (fair (calculatePoints (Some a) (Some b))) = (\<Sum>e\<leftarrow>sharedEvents a b. contested Player2 a b e)
   \<and> events (fair (calculatePoints (Some a) (Some b))) = sharedEvents a b
   \<and> set (sharedEvents a b) = set (objectKeys (personal_records a)) \<inter> set (objectKeys (personal_records b))
   \<and> distinct (sharedEvents a b)
   \<and> (noZeroRank a \<and> noZeroRank b \<longrightarrow>
        player1 (fair (calculatePoints (Some a) (Some b)))
          = (\<Sum>e\<leftarrow>sharedEvents a b. specContested Player1 a b e)
        \<and> player2 (fair (calculatePoints (Some a) (Some b)))
          = (\<Sum>e\<leftarrow>sharedEvents a b. specContested Player2 a b e))
   \<and> (rank1 \<noteq> Some 0 \<and> rank2 \<noteq> Some 0 \<longrightarrow> getBetterRank rank1 rank2 = better rank1 rank2)
   \<and> (0 < r1 \<and> r1 < r2 \<longrightarrow>
        getBetterRank (Some r1) (Some r2) = Player1 \<and> getBetterRank (Some r2) (Some r1) = Player2)"
proof -
  have 3: "events (fair (calculatePoints (Some a) (Some b))) = sharedEvents a b"
    by (simp add: calculatePoints_Some Let_def fold_fairEvents sharedEvents_def)
  have 4: "set (sharedEvents a b) = set (objectKeys (personal_records a)) \<inter> set (objectKeys (personal_records b))"
    by (auto simp: sharedEvents_def set_getAllEvents holds_def)
  have 5: "distinct (sharedEvents a b)"
    by (simp add: sharedEvents_def distinct_getAllEvents)
  have 6: "player1 (fair (calculatePoints (Some a) (Some b)))
             = (\<Sum>e\<leftarrow>sharedEvents a b. specContested Player1 a b e)
           \<and> player2 (fair (calculatePoints (Some a) (Some b)))
             = (\<Sum>e\<leftarrow>sharedEvents a b. specContested Player2 a b e)"
    if "noZeroRank a" and "noZeroRank b"
    using fair_player1 [of a b] fair_player2 [of a b] sum_contested_spec [OF that]
    by simp
  have 7: "getBetterRank rank1 rank2 = better rank1 rank2"
    if "rank1 \<noteq> Some 0" and "rank2 \<noteq> Some 0"
    using that by (rule getBetterRank_better)
  have 8: "getBetterRank (Some r1) (Some r2) = Player1 \<and> getBetterRank (Some r2) (Some r1) = Player2"
    if "0 < r1" and "r1 < r2"
    using getBetterRank_lower_wins [OF that] by simp
  show ?thesis
    using fair_player1 [of a b] fair_player2 [of a b] 3 4 5 6 7 8 by blast
qed

text \<open>
  The champion beats the novice in both disciplines of the one event they share, on
  whichever side each stands; C and D split the two points of event 333.
\<close>

theorem fair_tally_witness:
  "fair (calculatePoints (Some champion) (Some novice)) =
     \<lparr> player1 = 2, player2 = 0, events = [''333''] \<rparr>
   \<and> fair (calculatePoints (Some novice) (Some champion)) =
     \<lparr> player1 = 0, player2 = 2, events = [''333''] \<rparr>
   \<and> fair (calculatePoints (Some competitorC) (Some competitorD)) =
     \<lparr> player1 = 1, player2 = 1, events = [''333''] \<rparr>
   \<and> getBetterRank (Some 1) (Some 5000) = Player1
   \<and> getBetterRank (Some 5000) (Some 1) = Player2
   \<and> getBetterRank (Some 1) None = better (Some 1) None"
proof -
  have nc: "noZeroRank champion" by code_simp
  have nn: "noZeroRank novice" by code_simp
  have nC: "noZeroRank competitorC" by code_simp
  have nD: "noZeroRank competitorD" by code_simp
  have s1: "sharedEvents champion novice = [''333'']" by code_simp
  have s2: "sharedEvents novice champion = [''333'']" by code_simp
  have s3: "sharedEvents competitorC competitorD = [''333'']" by code_simp
  have p1: "specContested Player1 champion novice ''333'' = 2" by code_simp
  have p2: "specContested Player2 champion novice ''333'' = 0" by code_simp
  have q1: "specContested Player1 novice champion ''333'' = 0" by code_simp
  have q2: "specContested Player2 novice champion ''333'' = 2" by code_simp
  have t1: "specContested Player1 competitorC competitorD ''333'' = 1" by code_simp
  have t2: "specContested Player2 competitorC competitorD ''333'' = 1" by code_simp
  note A = fair_tally [of champion novice "Some 1" None 1 5000]
  note B = fair_tally [of novice champion "Some 1" None 1 5000]
  note C = fair_tally [of competitorC competitorD "Some 1" None 1 5000]
  have a: "fair (calculatePoints (Some champion) (Some novice)) =
     \<lparr> player1 = 2, player2 = 0, events = [''333''] \<rparr>"
    using A nc nn by (cases "fair (calculatePoints (Some champion) (Some novice))") (simp add: s1 p1 p2)
  have b: "fair (calculatePoints (Some novice) (Some champion)) =
     \<lparr> player1 = 0, player2 = 2, events = [''333''] \<rparr>"
    using B nc nn by (cases "fair (calculatePoints (Some novice) (Some champion))") (simp add: s2 q1 q2)
  have c: "fair (calculatePoints (Some competitorC) (Some competitorD)) =
     \<lparr> player1 = 1, player2 = 1, events = [''333''] \<rparr>"
    using C nC nD by (cases "fair (calculatePoints (Some competitorC) (Some competitorD))") (simp add: s3 t1 t2)
  have d: "getBetterRank (Some 1) (Some 5000) = Player1 \<and> getBetterRank (Some 5000) (Some 1) = Player2"
    using A by simp
  have e: "getBetterRank (Some 1) None = better (Some 1) None"
    using A by simp
  show ?thesis using a b c d e by simp
qed

text \<open>
  Claim C6. In the unfair tally an event that only one competitor holds gives its holder
  one point per discipline they have a result in, with no comparison, and an event both
  hold is compared as in the fair tally: each unfair total is the fair total plus the
  holder's points for the events the other side does not hold. The events listed are all
  events of either record.
\<close>

theorem unfair_tally:
  "player1 (unfair (calculatePoints (Some a) (Some b)))
     = (\<Sum>e\<leftarrow>sharedEvents a b. contested Player1 a b e) + (\<Sum>e\<leftarrow>onlyFirst a b. uncontested a e)
   \<and> player2 (unfair (calculatePoints (Some a) (Some b)))
     = (\<Sum>e\<leftarrow>sharedEvents a b. contested Player2 a b e) + (\<Sum>e\<leftarrow>onlySecond a b. uncontested b e)
   \<and> player1 (unfair (calculatePoints (Some a) (Some b)))
     = player1 (fair (calculatePoints (Some a) (Some b))) + (\<Sum>e\<leftarrow>onlyFirst a b. uncontested a e)
   \<and> player2 (unfair (calculatePoints (Some a) (Some b)))
     = player2 (fair (calculatePoints (Some a) (Some b))) + (\<Sum>e\<leftarrow>onlySecond a b. uncontested b e)
   \<and> events (unfair (calculatePoints (Some a) (Some b))) = getAllEvents (Some a) (Some b)
   \<and> set (getAllEvents (Some a) (Some b))
     = set (objectKeys (personal_records a)) \<union> set (objectKeys (personal_records b))"
proof -
  have 1: "player1 (unfair (calculatePoints (Some a) (Some b)))
     = (\<Sum>e\<leftarrow>sharedEvents a b. contested Player1 a b e) + (\<Sum>e\<leftarrow>onlyFirst a b. uncontested a e)"
    by (simp add: calculatePoints_Some Let_def fold_unfairPoints1 sharedEvents_def onlyFirst_def
          sum_contested_shared [symmetric] sum_uncontested_only [symmetric])
  have 2: "player2 (unfair (calculatePoints (Some a) (Some b)))
     = (\<Sum>e\<leftarrow>sharedEvents a b. contested Player2 a b e) + (\<Sum>e\<leftarrow>onlySecond a b. uncontested b e)"
    by (simp add: calculatePoints_Some Let_def fold_unfairPoints2 sharedEvents_def onlySecond_def
          sum_contested_shared [symmetric] sum_uncontested_only [symmetric])
  have 5: "events (unfair (calculatePoints (Some a) (Some b))) = getAllEvents (Some a) (Some b)"
    by (simp add: calculatePoints_Some Let_def fold_unfairEvents)
  show ?thesis
    using 1 2 fair_player1 [of a b] fair_player2 [of a b] 5 set_getAllEvents [of a b] by simp
qed

text \<open>The spec's scenario 3, and the pair C, D with one more event on the side of C.\<close>

theorem unfair_tally_witness:
  "calculatePoints (Some competitorA) (Some competitorB) =
     \<lparr> fair = \<lparr> player1 = 0, player2 = 0, events = [] \<rparr>,
       unfair = \<lparr> player1 = 1, player2 = 1, events = [''333'', ''444''] \<rparr> \<rparr>
   \<and> player1 (unfair (calculatePoints (Some competitorC) (Some competitorD))) = 2
   \<and> player2 (unfair (calculatePoints (Some competitorC) (Some competitorD))) = 1
   \<and> events (unfair (calculatePoints (Some competitorC) (Some competitorD))) = [''222'', ''333'']"
proof -
  have ab: "calculatePoints (Some competitorA) (Some competitorB) =
     \<lparr> fair = \<lparr> player1 = 0, player2 = 0, events = [] \<rparr>,
       unfair = \<lparr> player1 = 1, player2 = 1, events = [''333'', ''444''] \<rparr> \<rparr>"
    by code_simp
  have s: "sharedEvents competitorC competitorD = [''333'']" by code_simp
  have o1: "onlyFirst competitorC competitorD = [''222'']" by code_simp
  have o2: "onlySecond competitorC competitorD = []" by code_simp
  have g: "getAllEvents (Some competitorC) (Some competitorD) = [''222'', ''333'']" by code_simp
  have c1: "contested Player1 competitorC competitorD ''333'' = 1" by code_simp
  have c2: "contested Player2 competitorC competitorD ''333'' = 1" by code_simp
  have u: "uncontested competitorC ''222'' = 1" by code_simp
  show ?thesis
    using unfair_tally [of competitorC competitorD] by (simp add: ab s o1 o2 g c1 c2 u)
qed

text \<open>
  Claim C7. Comparing a record with an identical copy gives equal fair totals and equal
  unfair totals: every comparison of a discipline is a tie, so all four totals are 0.
\<close>

theorem self_comparison:
  "player1 (fair (calculatePoints (Some a) (Some a))) = player2 (fair (calculatePoints (Some a) (Some a)))
   \<and> player1 (unfair (calculatePoints (Some a) (Some a))) = player2 (unfair (calculatePoints (Some a) (Some a)))
   \<and> player1 (fair (calculatePoints (Some a) (Some a))) = 0
   \<and> player1 (unfair (calculatePoints (Some a) (Some a))) = 0
   \<and> getBetterRank r r = Tie"
proof -
  have d: "disciplinePoint w d1 d1 = 0" if "w \<noteq> Tie" for w d1
    using that by (cases d1) (simp_all add: disciplinePoint_def getBetterRank_same)
  have c: "contested w a a e = 0" if "w \<noteq> Tie" for w e
    using that by (simp add: contested_def d split: option.splits)
  have u: "(if holds a e then 0 else uncontested a e) = 0" for e
    by (simp add: uncontested_only_held)
  have "player1 (fair (calculatePoints (Some a) (Some a))) = 0"
    by (simp add: calculatePoints_Some Let_def fold_fairPoints1 c)
  moreover have "player2 (fair (calculatePoints (Some a) (Some a))) = 0"
    by (simp add: calculatePoints_Some Let_def fold_fairPoints2 c)
  moreover have "player1 (unfair (calculatePoints (Some a) (Some a))) = 0"
    by (simp add: calculatePoints_Some Let_def fold_unfairPoints1 c u)
  moreover have "player2 (unfair (calculatePoints (Some a) (Some a))) = 0"
    by (simp add: calculatePoints_Some Let_def fold_unfairPoints2 c u)
  ultimately show ?thesis by (simp add: getBetterRank_same)
qed

theorem self_comparison_witness:
  "player1 (fair (calculatePoints (Some competitorC) (Some competitorC))) = 0
   \<and> player2 (fair (calculatePoints (Some competitorC) (Some competitorC))) = 0
   \<and> player1 (unfair (calculatePoints (Some competitorC) (Some competitorC))) = 0
   \<and> player2 (unfair (calculatePoints (Some competitorC) (Some competitorC))) = 0
   \<and> getBetterRank (Some 5) (Some 5) = Tie"
  using self_comparison [of competitorC "Some 5"] by simp

text \<open>
  Claim C10. The comparator treats a rank of 0 as an absent rank: against every positive
  rank \<open>r\<close>, however large, the side with rank 0 loses; two ranks of 0 tie; and in
  either position a rank of 0 gives the result an absent rank gives, whatever the other
  rank is.
\<close>

theorem getBetterRank_zero:
  assumes "0 < r"
  shows "getBetterRank (Some 0) (Some r) = Player2
         \<and> getBetterRank (Some r) (Some 0) = Player1
         \<and> getBetterRank (Some 0) (Some 0) = Tie
         \<and> getBetterRank (Some 0) y = getBetterRank None y
         \<and> getBetterRank y (Some 0) = getBetterRank y None"
  using assms by (cases y) (simp_all add: getBetterRank_def falsy_def)

theorem getBetterRank_zero_witness:
  "getBetterRank (Some 0) (Some 1000000) = Player2
   \<and> getBetterRank (Some 1000000) (Some 0) = Player1
   \<and> getBetterRank (Some 0) (Some 0) = Tie
   \<and> getBetterRank (Some 0) (Some 7) = getBetterRank None (Some 7)
   \<and> getBetterRank (Some 7) (Some 0) = getBetterRank (Some 7) None"
  using getBetterRank_zero [of 1000000 "Some 7"] by simp

end
